theory Spec2Isabelle
  imports Main "HOL-Library.Word" "HOL-Library.Signed_Division"
begin

section \<open>Data model of fee\_quote.go\<close>

text \<open>
  Go's \<open>int64\<close> is a 64-bit word: multiplication wraps around, comparison is the signed
  one (\<open><s\<close>), and division truncates towards zero.
\<close>

type_synonym int64 = "64 word"

text \<open>\<open>[]byte\<close> and \<open>[32]byte\<close>: the response body and a SHA-256 digest.\<close>

type_synonym digest = "8 word list"

text \<open>
  A Go \<open>error\<close> value, identified by its message (\<open>errors.New\<close>, \<open>fmt.Errorf\<close>); a nil
  error is \<open>None\<close> of \<open>error option\<close>.
\<close>

datatype error = Errorf string

text \<open>The run-time panics the code can raise: they unwind the call and return nothing.\<close>

datatype panic = NilPointerDereference | IntegerDivideByZero

datatype 'a outcome = Panic panic | Return 'a

text \<open>The constants of the package.\<close>

definition FeeTypeData :: string where
  "FeeTypeData = ''data''"

definition FeeTypeStandard :: string where
  "FeeTypeStandard = ''standard''"

definition FeeCategoryMining :: string where
  "FeeCategoryMining = ''mining''"

definition FeeCategoryRelay :: string where
  "FeeCategoryRelay = ''relay''"

text \<open>\<open>feeAmount\<close>: the actual fee for the given feeType.\<close>

record feeAmount =
  Bytes :: int64
  Satoshis :: int64

text \<open>
  \<open>feeType\<close>: the two rates are pointers (\<open>*feeAmount\<close>), nil when the JSON leaves the
  field out or gives null.
\<close>

record feeType =
  FeeType :: string
  MiningFee :: "feeAmount option"
  RelayFee :: "feeAmount option"

text \<open>
  \<open>FeePayload\<close>: \<open>Fees\<close> is a slice of pointers (\<open>[]*feeType\<close>), an element of which is nil
  for a JSON null; \<open>MinerReputation\<close> (\<open>interface{}\<close>) is kept as an opaque value.
\<close>

record FeePayload =
  APIVersion :: string
  Timestamp :: string
  ExpirationTime :: string
  MinerID :: string
  CurrentHighestBlockHash :: string
  CurrentHighestBlockHeight :: "64 word"
  MinerReputation :: "string option"
  Fees :: "feeType option list"

text \<open>
  Modelled from the spec: the declaration of \<open>Miner\<close> is not among the sources; the spec
  gives a peer a name (its unique key), a base URL and an optional auth token.
\<close>

record Miner =
  Name :: string
  Token :: string
  URL :: string

text \<open>
  Modelled from the spec: the declaration of \<open>RequestResponse\<close> is not among the sources;
  the code reads its fields \<open>BodyContents\<close> and \<open>Error\<close>, the spec's raw response bytes
  and nilable transport-level error.
\<close>

record RequestResponse =
  BodyContents :: string
  Error :: "error option"

text \<open>\<open>feeResult\<close>: a shim for storing miner and http response data.\<close>

record feeResult =
  Response :: RequestResponse
  ResultMiner :: "Miner option"

text \<open>\<open>FeeQuoteResponse\<close>: the raw response from the Merchant API request.\<close>

record FeeQuoteResponse =
  Miner :: "Miner option"
  Quote :: "FeePayload option"
  Payload :: string
  Validated :: bool
  Signature :: string
  PublicKey :: string
  Encoding :: string
  MimeType :: string

text \<open>The zero value of \<open>FeeQuoteResponse\<close> (\<open>var bestQuote FeeQuoteResponse\<close>).\<close>

definition zeroFeeQuoteResponse :: FeeQuoteResponse where
  "zeroFeeQuoteResponse =
     \<lparr>Miner = None, Quote = None, Payload = [], Validated = False, Signature = [],
      PublicKey = [], Encoding = [], MimeType = []\<rparr>"

text \<open>
  Modelled from the spec: the declaration of \<open>Client\<close> is not among the sources; the code
  reads \<open>c.Miners\<close>, the configured peers.
\<close>

record Client =
  Miners :: "Miner list"

section \<open>The external collaborators\<close>

text \<open>
  What the code calls outside the repository is a parameter of the model:
  \<^item> \<open>hasUnicode\<close>: what \<open>strings.EqualFold\<close> answers from the first position at which
    either string has a non-ASCII byte (its Unicode simple-folding path);
  \<^item> \<open>jsonUnmarshalResponse body r\<close>: \<open>json.Unmarshal(body, &response)\<close>, the response as
    it is after the call and the error;
  \<^item> \<open>jsonUnmarshalQuote payload q\<close>: \<open>json.Unmarshal([]byte(payload), &response.Quote)\<close>;
  \<^item> \<open>Sum256\<close>: \<open>sha256.Sum256\<close>;
  \<^item> \<open>VerifyMessageDER\<close>: \<open>bitcoin.VerifyMessageDER\<close>, which returns a flag and an error;
  \<^item> \<open>httpRequest method url token status\<close>: the transport, with a nil request body.
\<close>

record externals =
  hasUnicode :: "string \<Rightarrow> string \<Rightarrow> bool"
  jsonUnmarshalResponse :: "string \<Rightarrow> FeeQuoteResponse \<Rightarrow> FeeQuoteResponse \<times> error option"
  jsonUnmarshalQuote :: "string \<Rightarrow> FeePayload option \<Rightarrow> FeePayload option \<times> error option"
  Sum256 :: "string \<Rightarrow> digest"
  VerifyMessageDER :: "digest \<Rightarrow> string \<Rightarrow> string \<Rightarrow> bool \<times> error option"
  httpRequest :: "string \<Rightarrow> string \<Rightarrow> string \<Rightarrow> nat \<Rightarrow> RequestResponse"

text \<open>The calls to the collaborators, in the order the code makes them.\<close>

datatype ext_call =
    Call_UnmarshalResponse string
  | Call_UnmarshalQuote string
  | Call_Sum256 string
  | Call_VerifyMessageDER digest string string

section \<open>The fee calculator\<close>

text \<open>
  \<open>strings.EqualFold\<close>: the ASCII loop of the Go library, byte by byte; identical bytes
  match, and so do an upper-case ASCII letter and its lower-case form. When the strings
  run out together the answer is whether both are finished.
\<close>

definition asciiFoldEq :: "char \<Rightarrow> char \<Rightarrow> bool" where
  "asciiFoldEq sr tr =
     (let lo = min (of_char sr) (of_char tr) :: nat; hi = max (of_char sr) (of_char tr) in
      lo = hi \<or> (65 \<le> lo \<and> lo \<le> 90 \<and> hi = lo + 32))"

fun EqualFold :: "(string \<Rightarrow> string \<Rightarrow> bool) \<Rightarrow> string \<Rightarrow> string \<Rightarrow> bool" where
  "EqualFold uni (sr # s) (tr # t) =
     (if (of_char sr :: nat) \<ge> 128 \<or> (of_char tr :: nat) \<ge> 128 then uni (sr # s) (tr # t)
      else if asciiFoldEq sr tr then EqualFold uni s t
      else False)"
| "EqualFold uni [] [] = True"
| "EqualFold uni [] (tr # t) = False"
| "EqualFold uni (sr # s) [] = False"

text \<open>
  Go's \<open>/\<close> on \<open>int64\<close> for a non-zero divisor: the quotient truncated towards zero, and
  \<open>MinInt64 / -1\<close> wraps to \<open>MinInt64\<close>.
\<close>

definition quo64 :: "int64 \<Rightarrow> int64 \<Rightarrow> int64" where
  "quo64 a b = word_of_int (sint a sdiv sint b)"

text \<open>
  The loop of \<open>GetFee\<close> over \<open>f.Fees\<close>. Reading a field of a nil \<open>*feeType\<close> or of a nil
  \<open>*feeAmount\<close> panics, and so does the division by a zero \<open>Bytes\<close>.
\<close>

fun GetFee_loop ::
  "externals \<Rightarrow> feeType option list \<Rightarrow> string \<Rightarrow> string \<Rightarrow> int64 \<Rightarrow> (int64 \<times> error option) outcome"
where
  "GetFee_loop ext [] feeCategory feeTy txBytes =
     Return (1, Some (Errorf (''feeType '' @ feeTy @ '' is not found in fees'')))"
| "GetFee_loop ext (None # fees) feeCategory feeTy txBytes = Panic NilPointerDereference"
| "GetFee_loop ext (Some fee # fees) feeCategory feeTy txBytes =
     (if FeeType fee = feeTy then
        (case (if EqualFold (hasUnicode ext) feeCategory FeeCategoryMining
               then MiningFee fee else RelayFee fee) of
           None \<Rightarrow> Panic NilPointerDereference
         | Some amount \<Rightarrow>
             if Bytes amount = 0 then Panic IntegerDivideByZero
             else
               (let calcFee = quo64 (Satoshis amount * txBytes) (Bytes amount) in
                if calcFee \<noteq> 0 then Return (calcFee, None)
                else Return (1, Some (Errorf ''warning: fee calculation was 0''))))
      else GetFee_loop ext fees feeCategory feeTy txBytes)"

text \<open>
  \<open>GetFee\<close>, a method on \<open>*FeePayload\<close>: the two parameter checks come first, and only then
  is the receiver read (\<open>f.Fees\<close>), which panics when it is nil.
\<close>

definition GetFee ::
  "externals \<Rightarrow> FeePayload option \<Rightarrow> string \<Rightarrow> string \<Rightarrow> int64 \<Rightarrow> (int64 \<times> error option) outcome"
where
  "GetFee ext f feeCategory feeTy txBytes =
     (if \<not> EqualFold (hasUnicode ext) feeTy FeeTypeData
         \<and> \<not> EqualFold (hasUnicode ext) feeTy FeeTypeStandard
      then Return (0, Some (Errorf (''feeType '' @ feeTy @ '' is not recognized'')))
      else if \<not> EqualFold (hasUnicode ext) feeCategory FeeCategoryMining
         \<and> \<not> EqualFold (hasUnicode ext) feeCategory FeeCategoryRelay
      then Return (0, Some (Errorf (''feeCategory '' @ feeCategory @ '' is not recognized'')))
      else (case f of
              None \<Rightarrow> Panic NilPointerDereference
            | Some p \<Rightarrow> GetFee_loop ext (Fees p) feeCategory feeTy txBytes))"

section \<open>Parsing and verifying one response\<close>

text \<open>
  \<open>strings.Replace(payload, "\\", "", -1)\<close>: every backslash byte (0x5C) is deleted.
\<close>

definition stripBackslashes :: "string \<Rightarrow> string" where
  "stripBackslashes s = filter (\<lambda>ch. ch \<noteq> CHR 0x5C) s"

text \<open>
  The second block of \<open>parseResponseIntoQuote\<close>: a non-empty payload is overwritten with
  its stripped form, which is then decoded into \<open>response.Quote\<close>.
\<close>

definition unmarshalPayload ::
  "externals \<Rightarrow> FeeQuoteResponse \<Rightarrow> (FeeQuoteResponse \<times> error option) \<times> ext_call list"
where
  "unmarshalPayload ext response =
     (if length (Payload response) > 0 then
        (let response' = response\<lparr>Payload := stripBackslashes (Payload response)\<rparr>;
             (quote, err) = jsonUnmarshalQuote ext (Payload response') (Quote response')
         in ((response'\<lparr>Quote := quote\<rparr>, err), [Call_UnmarshalQuote (Payload response')]))
      else ((response, None), []))"

text \<open>
  The third block: with a signature and a public key, the digest of \<open>response.Payload\<close>
  (as the second block left it) goes to the verifier, whose flag is stored in
  \<open>response.Validated\<close> and whose error is returned.
\<close>

definition validateSignature ::
  "externals \<Rightarrow> FeeQuoteResponse \<Rightarrow> (FeeQuoteResponse \<times> error option) \<times> ext_call list"
where
  "validateSignature ext response =
     (if length (Signature response) > 0 \<and> length (PublicKey response) > 0 then
        (let hash = Sum256 ext (Payload response);
             (validated, err) = VerifyMessageDER ext hash (PublicKey response) (Signature response)
         in ((response\<lparr>Validated := validated\<rparr>, err),
             [Call_Sum256 (Payload response),
              Call_VerifyMessageDER hash (PublicKey response) (Signature response)]))
      else ((response, None), []))"

text \<open>
  \<open>parseResponseIntoQuote\<close> with the calls it makes. The results are named in the Go
  code, so an early \<open>return\<close> hands back the response as far as it was filled in,
  together with the error.
\<close>

definition parseResponseIntoQuote_calls ::
  "externals \<Rightarrow> feeResult \<Rightarrow> (FeeQuoteResponse \<times> error option) \<times> ext_call list"
where
  "parseResponseIntoQuote_calls ext result =
     (let body = BodyContents (Response result);
          (response1, err1) =
             jsonUnmarshalResponse ext body (zeroFeeQuoteResponse\<lparr>Miner := ResultMiner result\<rparr>);
          calls1 = [Call_UnmarshalResponse body]
      in if err1 \<noteq> None then ((response1, err1), calls1)
         else
           (let ((response2, err2), calls2) = unmarshalPayload ext response1
            in if err2 \<noteq> None then ((response2, err2), calls1 @ calls2)
               else
                 (let ((response3, err3), calls3) = validateSignature ext response2
                  in ((response3, err3), calls1 @ calls2 @ calls3))))"

definition parseResponseIntoQuote :: "externals \<Rightarrow> feeResult \<Rightarrow> FeeQuoteResponse \<times> error option" where
  "parseResponseIntoQuote ext result = fst (parseResponseIntoQuote_calls ext result)"

section \<open>Fetching and aggregating\<close>

text \<open>\<open>getQuote\<close> fires the HTTP request to retrieve the fee quote.\<close>

definition getQuote :: "externals \<Rightarrow> Client \<Rightarrow> Miner \<Rightarrow> feeResult" where
  "getQuote ext client miner =
     \<lparr>Response = httpRequest ext ''GET'' (''https://'' @ URL miner @ ''/mapi/feeQuote'') (Token miner) 200,
      ResultMiner = Some miner\<rparr>"

text \<open>\<open>FeeQuote\<close>: the request to one miner, which may be nil.\<close>

definition FeeQuote :: "externals \<Rightarrow> Client \<Rightarrow> Miner option \<Rightarrow> FeeQuoteResponse option \<times> error option" where
  "FeeQuote ext c miner =
     (case miner of
        None \<Rightarrow> (None, Some (Errorf ''miner was nil''))
      | Some m \<Rightarrow>
          (let result = getQuote ext c m in
           case Error (Response result) of
             Some e \<Rightarrow> (None, Some e)
           | None \<Rightarrow>
               (case parseResponseIntoQuote ext result of
                  (response, Some err) \<Rightarrow> (None, Some err)
                | (response, None) \<Rightarrow>
                    (case Quote response of
                       None \<Rightarrow> (None, Some (Errorf (''failed getting quotes from: '' @ Name m)))
                     | Some q \<Rightarrow>
                         if length (Fees q) = 0
                         then (None, Some (Errorf (''failed getting quotes from: '' @ Name m)))
                         else (Some response, None)))))"

text \<open>
  The loop of \<open>BestQuote\<close> over the results channel, with the loop variables \<open>bestRate\<close>
  and \<open>bestQuote\<close>. A panic of \<open>GetFee\<close> unwinds \<open>BestQuote\<close> too.
\<close>

fun BestQuote_loop ::
  "externals \<Rightarrow> string \<Rightarrow> string \<Rightarrow> feeResult list \<Rightarrow> int64 \<Rightarrow> FeeQuoteResponse
     \<Rightarrow> (FeeQuoteResponse option \<times> error option) outcome"
where
  "BestQuote_loop ext feeCategory feeTy [] bestRate bestQuote = Return (Some bestQuote, None)"
| "BestQuote_loop ext feeCategory feeTy (result # rest) bestRate bestQuote =
     (case Error (Response result) of
        Some e \<Rightarrow> Return (None, Some e)
      | None \<Rightarrow>
          (case parseResponseIntoQuote ext result of
             (quote, Some err) \<Rightarrow> Return (None, Some err)
           | (quote, None) \<Rightarrow>
               if bestRate = 0 then
                 (case GetFee ext (Quote quote) feeCategory feeTy 1000 of
                    Panic p \<Rightarrow> Panic p
                  | Return (rate, Some err) \<Rightarrow> Return (None, Some err)
                  | Return (rate, None) \<Rightarrow> BestQuote_loop ext feeCategory feeTy rest rate quote)
               else
                 (case GetFee ext (Quote quote) feeCategory feeTy 1000 of
                    Panic p \<Rightarrow> Panic p
                  | Return (testRate, Some err) \<Rightarrow> Return (None, Some err)
                  | Return (testRate, None) \<Rightarrow>
                      if testRate <s bestRate
                      then BestQuote_loop ext feeCategory feeTy rest testRate quote
                      else BestQuote_loop ext feeCategory feeTy rest bestRate bestQuote)))"

text \<open>
  The fan-out: one goroutine per miner sends its result into the channel, and the loop
  starts after all have finished. The order of the channel is the order in which the
  goroutines complete; \<open>sched\<close> lists the positions of the miners in that order, and is a
  completion order when it holds every position once.
\<close>

definition completion_order :: "Client \<Rightarrow> nat list \<Rightarrow> bool" where
  "completion_order c sched = (sort sched = [0..<length (Miners c)])"

definition resultsChannel :: "externals \<Rightarrow> Client \<Rightarrow> nat list \<Rightarrow> feeResult list" where
  "resultsChannel ext c sched = map (\<lambda>i. getQuote ext c (Miners c ! i)) sched"

definition BestQuote ::
  "externals \<Rightarrow> Client \<Rightarrow> string \<Rightarrow> string \<Rightarrow> nat list
     \<Rightarrow> (FeeQuoteResponse option \<times> error option) outcome"
where
  "BestQuote ext c feeCategory feeTy sched =
     BestQuote_loop ext feeCategory feeTy (resultsChannel ext c sched) 0 zeroFeeQuoteResponse"

text \<open>
  One pass of the loop body of \<open>BestQuote\<close> up to the comparison of the rates: the
  transport error of the result, else the error of the parse, else the panic, the error
  or the rate of \<open>GetFee\<close> at 1000 bytes, with the parsed quote.
\<close>

definition score ::
  "externals \<Rightarrow> string \<Rightarrow> string \<Rightarrow> feeResult \<Rightarrow> (error + FeeQuoteResponse \<times> int64) outcome"
where
  "score ext feeCategory feeTy result =
     (case Error (Response result) of
        Some e \<Rightarrow> Return (Inl e)
      | None \<Rightarrow>
          (case parseResponseIntoQuote ext result of
             (quote, Some err) \<Rightarrow> Return (Inl err)
           | (quote, None) \<Rightarrow>
               (case GetFee ext (Quote quote) feeCategory feeTy 1000 of
                  Panic p \<Rightarrow> Panic p
                | Return (rate, Some err) \<Rightarrow> Return (Inl err)
                | Return (rate, None) \<Rightarrow> Return (Inr (quote, rate)))))"

text \<open>
  \<open>scored\<close>: the result passes every step of the loop body, so that its quote and rate
  reach the comparison; \<open>rated\<close>: it does so with the given rate.
\<close>

definition scored :: "externals \<Rightarrow> string \<Rightarrow> string \<Rightarrow> feeResult \<Rightarrow> bool" where
  "scored ext feeCategory feeTy result =
     (case score ext feeCategory feeTy result of
        Return (Inr (quote, rate)) \<Rightarrow> True
      | _ \<Rightarrow> False)"

definition rated :: "externals \<Rightarrow> string \<Rightarrow> string \<Rightarrow> feeResult \<Rightarrow> int64 \<Rightarrow> bool" where
  "rated ext feeCategory feeTy result rate =
     (case score ext feeCategory feeTy result of
        Return (Inr (quote, rate')) \<Rightarrow> rate' = rate
      | _ \<Rightarrow> False)"

section \<open>Concrete inputs\<close>

text \<open>
  Table-driven stand-ins for the collaborators, for running the model on concrete inputs:
  \<open>routes\<close> maps a URL to the transport's answer, \<open>envelopes\<close> a body to the payload,
  signature and public key it decodes to, \<open>payloads\<close> a payload string to the schedule it
  decodes to, and \<open>accepted\<close> lists the triples the verifier accepts. The stand-in for the
  digest is the message itself, as bytes.
\<close>

definition mockExternals ::
  "(string \<times> RequestResponse) list \<Rightarrow> (string \<times> string \<times> string \<times> string) list
     \<Rightarrow> (string \<times> FeePayload) list \<Rightarrow> (digest \<times> string \<times> string) list \<Rightarrow> externals"
where
  "mockExternals routes envelopes payloads accepted =
     \<lparr>hasUnicode = (\<lambda>s t. False),
      jsonUnmarshalResponse = (\<lambda>body r.
         case map_of envelopes body of
           None \<Rightarrow> (r, Some (Errorf ''unexpected end of JSON input''))
         | Some (p, sg, pk) \<Rightarrow> (r\<lparr>Payload := p, Signature := sg, PublicKey := pk\<rparr>, None)),
      jsonUnmarshalQuote = (\<lambda>payload q.
         case map_of payloads payload of
           None \<Rightarrow> (q, Some (Errorf ''invalid character''))
         | Some f \<Rightarrow> (Some f, None)),
      Sum256 = (\<lambda>m. map (\<lambda>ch. of_nat (of_char ch)) m),
      VerifyMessageDER = (\<lambda>hash pk sg. ((hash, pk, sg) \<in> set accepted, None)),
      httpRequest = (\<lambda>method url token status.
         case map_of routes url of
           None \<Rightarrow> \<lparr>BodyContents = [], Error = Some (Errorf ''no such host'')\<rparr>
         | Some r \<Rightarrow> r)\<rparr>"

definition schedule :: "feeType option list \<Rightarrow> FeePayload" where
  "schedule fees =
     \<lparr>APIVersion = ''0.1.0'', Timestamp = [], ExpirationTime = [], MinerID = [],
      CurrentHighestBlockHash = [], CurrentHighestBlockHeight = 0, MinerReputation = None,
      Fees = fees\<rparr>"

text \<open>An entry with the same rate \<open>{satoshis, bytes}\<close> for mining and relay.\<close>

definition feeEntry :: "string \<Rightarrow> int64 \<Rightarrow> int64 \<Rightarrow> feeType" where
  "feeEntry tag sat bytes =
     \<lparr>FeeType = tag, MiningFee = Some \<lparr>Bytes = bytes, Satoshis = sat\<rparr>,
      RelayFee = Some \<lparr>Bytes = bytes, Satoshis = sat\<rparr>\<rparr>"

text \<open>
  Peers that answer: each is a host name with the fee entries of its schedule. The body of
  a peer's response decodes to an unsigned envelope whose payload decodes to that
  schedule; a host that is not listed gives a transport error.
\<close>

definition quotingPeers :: "(string \<times> feeType option list) list \<Rightarrow> externals" where
  "quotingPeers peers =
     mockExternals
       (map (\<lambda>(u, fees). (''https://'' @ u @ ''/mapi/feeQuote'', \<lparr>BodyContents = u, Error = None\<rparr>)) peers)
       (map (\<lambda>(u, fees). (u, u, [], [])) peers)
       (map (\<lambda>(u, fees). (u, schedule fees)) peers)
       []"

definition miner :: "string \<Rightarrow> Miner" where
  "miner u = \<lparr>Name = u, Token = [], URL = u\<rparr>"

text \<open>
  A peer that signs: its body decodes to an envelope whose payload string is a small JSON
  object with a backslash before each double quote, with the signature \<open>sig\<close> and the
  public key \<open>key\<close>; the payload without the backslashes decodes to a schedule.
  \<open>accepted\<close> lists what the verifier accepts.
\<close>

definition wirePayload :: string where
  "wirePayload =
     [CHR ''{'', CHR 0x5C, CHR 0x22, CHR ''f'', CHR 0x5C, CHR 0x22, CHR '':'', CHR ''1'', CHR ''}'']"

definition signingPeer :: "(digest \<times> string \<times> string) list \<Rightarrow> externals" where
  "signingPeer accepted =
     mockExternals
       [(''https://a/mapi/feeQuote'', \<lparr>BodyContents = ''body'', Error = None\<rparr>)]
       [(''body'', wirePayload, ''sig'', ''key'')]
       [(stripBackslashes wirePayload, schedule [Some (feeEntry ''standard'' 500 1000)])]
       accepted"

text \<open>The same peer with a verifier that accepts the digest of the unstripped payload only.\<close>

definition wireSigned :: externals where
  "wireSigned = signingPeer [(Sum256 (signingPeer []) wirePayload, ''key'', ''sig'')]"

text \<open>Three peers quoting 500, 400 and 450 satoshis per 1000 bytes, and their client.\<close>

definition threePeers :: externals where
  "threePeers =
     quotingPeers [(''a'', [Some (feeEntry ''standard'' 500 1000)]),
                   (''b'', [Some (feeEntry ''standard'' 400 1000)]),
                   (''c'', [Some (feeEntry ''standard'' 450 1000)])]"

definition threeMiners :: Client where
  "threeMiners = \<lparr>Miners = [miner ''a'', miner ''b'', miner ''c'']\<rparr>"

section \<open>Properties of the fee calculator\<close>

lemmas GetFee_eval =
  GetFee_def FeeTypeData_def FeeTypeStandard_def FeeCategoryMining_def FeeCategoryRelay_def
  asciiFoldEq_def quo64_def signed_divide_int_def mockExternals_def schedule_def feeEntry_def

lemma GetFee_loop_first_match:
  assumes "\<forall>e\<in>set pre. FeeType e \<noteq> feeTy" and "FeeType fee = feeTy"
  shows "GetFee_loop ext (map Some pre @ Some fee # post) feeCategory feeTy txBytes =
         GetFee_loop ext [Some fee] feeCategory feeTy txBytes"
  using assms by (induction pre) simp_all

lemma int_div_le_dividend: "0 \<le> (a::int) \<Longrightarrow> 0 < b \<Longrightarrow> a div b \<le> a"
  by (metis div_by_1 int_one_le_iff_zero_less zdiv_mono2 zero_less_one)

lemma sdiv_pos_divisor_bounds:
  fixes a b :: int
  assumes "0 < b"
  shows "min a 0 \<le> a sdiv b \<and> a sdiv b \<le> max a 0"
proof (cases "0 \<le> a")
  case True
  then have "a sdiv b = a div b"
    using assms by (simp add: signed_divide_int_def sgn_if)
  moreover have "0 \<le> a div b" using True assms by (simp add: pos_imp_zdiv_nonneg_iff)
  moreover have "a div b \<le> a" using True assms by (rule int_div_le_dividend)
  ultimately show ?thesis using True by simp
next
  case False
  then have "a sdiv b = - ((- a) div b)"
    using assms by (simp add: signed_divide_int_def sgn_if)
  moreover have "0 \<le> (- a) div b" using False assms by (simp add: pos_imp_zdiv_nonneg_iff)
  moreover have "(- a) div b \<le> - a" using False assms by (intro int_div_le_dividend) simp_all
  ultimately show ?thesis using False by simp
qed

lemma sdiv_eq_div_nonneg:
  fixes a b :: int
  shows "0 \<le> a \<Longrightarrow> 0 < b \<Longrightarrow> a sdiv b = a div b"
  by (simp add: signed_divide_int_def sgn_if)

text \<open>
  Without overflow of the product and with a positive divisor, \<open>quo64\<close> is the integer
  quotient truncated towards zero.
\<close>

lemma sint_quo64_trunc:
  fixes sat txBytes bytes :: int64
  assumes "0 <s bytes" "- (2 ^ 63) \<le> sint sat * sint txBytes" "sint sat * sint txBytes < 2 ^ 63"
  shows "sint (quo64 (sat * txBytes) bytes) = (sint sat * sint txBytes) sdiv sint bytes"
proof -
  have b: "0 < sint bytes" using assms(1) by (simp add: word_sless_alt)
  have m: "sint (sat * txBytes) = sint sat * sint txBytes"
    using assms(2,3) by (simp add: sint_word_ariths signed_take_bit_int_eq_self)
  define p where "p = sint sat * sint txBytes"
  have "min p 0 \<le> p sdiv sint bytes \<and> p sdiv sint bytes \<le> max p 0"
    by (rule sdiv_pos_divisor_bounds [OF b])
  moreover have "- (2 ^ 63) \<le> p" "p < 2 ^ 63"
    using assms(2,3) by (simp_all add: p_def)
  ultimately have "- (2 ^ 63) \<le> p sdiv sint bytes \<and> p sdiv sint bytes < 2 ^ 63"
    by linarith
  then have "- (2 ^ 63) \<le> (sint sat * sint txBytes) sdiv sint bytes
      \<and> (sint sat * sint txBytes) sdiv sint bytes < 2 ^ 63"
    by (simp add: p_def)
  then show ?thesis
    unfolding quo64_def m by (simp add: signed_of_int signed_take_bit_int_eq_self)
qed

text \<open>
  What \<open>GetFee\<close> returns once the parameters are recognised and the scan has reached the
  first entry tagged \<open>feeTy\<close>, whose rate for the category is \<open>rate\<close> with a non-zero
  \<open>Bytes\<close>.
\<close>

lemma GetFee_first_match:
  assumes ty: "EqualFold (hasUnicode ext) feeTy FeeTypeData
             \<or> EqualFold (hasUnicode ext) feeTy FeeTypeStandard"
    and cat: "EqualFold (hasUnicode ext) feeCategory FeeCategoryMining
             \<or> EqualFold (hasUnicode ext) feeCategory FeeCategoryRelay"
    and fees: "Fees f = map Some pre @ Some fee # post"
    and pre: "\<forall>e\<in>set pre. FeeType e \<noteq> feeTy"
    and tag: "FeeType fee = feeTy"
    and rate: "(if EqualFold (hasUnicode ext) feeCategory FeeCategoryMining
                then MiningFee fee else RelayFee fee) = Some rate"
    and nz: "Bytes rate \<noteq> 0"
  shows "GetFee ext (Some f) feeCategory feeTy txBytes =
           (if quo64 (Satoshis rate * txBytes) (Bytes rate) \<noteq> 0
            then Return (quo64 (Satoshis rate * txBytes) (Bytes rate), None)
            else Return (1, Some (Errorf ''warning: fee calculation was 0'')))"
proof -
  have "GetFee ext (Some f) feeCategory feeTy txBytes =
        GetFee_loop ext (Fees f) feeCategory feeTy txBytes"
    using ty cat by (auto simp: GetFee_def)
  also have "\<dots> = GetFee_loop ext [Some fee] feeCategory feeTy txBytes"
    unfolding fees using pre tag by (rule GetFee_loop_first_match)
  also have "\<dots> = (if quo64 (Satoshis rate * txBytes) (Bytes rate) \<noteq> 0
            then Return (quo64 (Satoshis rate * txBytes) (Bytes rate), None)
            else Return (1, Some (Errorf ''warning: fee calculation was 0'')))"
    using tag rate nz by (simp add: Let_def)
  finally show ?thesis .
qed


text \<open>
  A negative rate at a positive byte count, without overflow and with a product at least
  as large in magnitude as the divisor, gives a negative quotient.
\<close>

lemma quo64_negative:
  fixes sat txBytes bytes :: int64
  assumes "sint sat < 0" "0 < sint txBytes" "0 < sint bytes"
    and "- (2 ^ 63) \<le> sint sat * sint txBytes"
    and "sint bytes \<le> - (sint sat * sint txBytes)"
  shows "quo64 (sat * txBytes) bytes <s 0"
proof -
  define p where "p = sint sat * sint txBytes"
  have neg: "p < 0" unfolding p_def using assms(1,2) by (simp add: mult_neg_pos)
  have b: "0 <s bytes" using assms(3) by (simp add: word_sless_alt)
  have "sint (quo64 (sat * txBytes) bytes) = p sdiv sint bytes"
    unfolding p_def using b assms(4)
  proof (rule sint_quo64_trunc)
    have "sint sat * sint txBytes < 0" using neg by (simp add: p_def)
    also have "(0::int) < 2 ^ 63" by simp
    finally show "sint sat * sint txBytes < 2 ^ 63" .
  qed
  also have "\<dots> = - ((- p) div sint bytes)"
    using neg assms(3) by (simp add: signed_divide_int_def sgn_if)
  also have "\<dots> < 0"
  proof -
    have "sint bytes \<le> - p" using assms(5) by (simp add: p_def)
    then have "0 < (- p) div sint bytes"
      using assms(3) by (simp add: pos_imp_zdiv_pos_iff)
    then show ?thesis by simp
  qed
  finally show ?thesis by (simp add: word_sless_alt)
qed

section \<open>Properties of the parse\<close>

text \<open>
  The second block when the inner decoding gives no error, and the whole parse when
  neither decoding gives an error.
\<close>

lemma unmarshalPayload_facts:
  assumes "Payload response \<noteq> [] \<longrightarrow>
      snd (jsonUnmarshalQuote ext (stripBackslashes (Payload response)) (Quote response)) = None"
  shows "snd (fst (unmarshalPayload ext response)) = None"
    and "Payload (fst (fst (unmarshalPayload ext response))) = stripBackslashes (Payload response)"
    and "Signature (fst (fst (unmarshalPayload ext response))) = Signature response"
    and "PublicKey (fst (fst (unmarshalPayload ext response))) = PublicKey response"
    and "snd (unmarshalPayload ext response) =
           (if Payload response \<noteq> [] then [Call_UnmarshalQuote (stripBackslashes (Payload response))]
            else [])"
  using assms
  by (auto simp: unmarshalPayload_def stripBackslashes_def Let_def split_def)

lemma parse_steps:
  assumes dec: "jsonUnmarshalResponse ext (BodyContents (Response result))
              (zeroFeeQuoteResponse\<lparr>Miner := ResultMiner result\<rparr>) = (response1, None)"
    and inner: "snd (fst (unmarshalPayload ext response1)) = None"
  shows "parseResponseIntoQuote_calls ext result =
           (fst (validateSignature ext (fst (fst (unmarshalPayload ext response1)))),
            Call_UnmarshalResponse (BodyContents (Response result))
              # snd (unmarshalPayload ext response1)
              @ snd (validateSignature ext (fst (fst (unmarshalPayload ext response1)))))"
  using assms
  by (simp add: parseResponseIntoQuote_calls_def Let_def split_def)

section \<open>Properties of the aggregation\<close>

text \<open>The loop of \<open>BestQuote\<close>, one result at a time, in terms of \<open>score\<close>.\<close>

lemma BestQuote_loop_Cons:
  "BestQuote_loop ext feeCategory feeTy (result # rest) bestRate bestQuote =
     (case score ext feeCategory feeTy result of
        Panic p \<Rightarrow> Panic p
      | Return (Inl e) \<Rightarrow> Return (None, Some e)
      | Return (Inr (quote, rate)) \<Rightarrow>
          if bestRate = 0 \<or> rate <s bestRate
          then BestQuote_loop ext feeCategory feeTy rest rate quote
          else BestQuote_loop ext feeCategory feeTy rest bestRate bestQuote)"
  by (simp add: score_def split: option.splits prod.splits outcome.splits)

lemma BestQuote_loop_Nil:
  "BestQuote_loop ext feeCategory feeTy [] bestRate bestQuote = Return (Some bestQuote, None)"
  by simp

declare BestQuote_loop.simps [simp del]

lemma score_Inr_iff:
  "score ext feeCategory feeTy result = Return (Inr (quote, rate)) \<longleftrightarrow>
     Error (Response result) = None
     \<and> parseResponseIntoQuote ext result = (quote, None)
     \<and> GetFee ext (Quote quote) feeCategory feeTy 1000 = Return (rate, None)"
  by (auto simp: score_def split: option.splits prod.splits outcome.splits)

lemma score_Inl_iff:
  "score ext feeCategory feeTy result = Return (Inl e) \<longleftrightarrow>
     Error (Response result) = Some e
     \<or> Error (Response result) = None
        \<and> (\<exists>quote. parseResponseIntoQuote ext result = (quote, Some e))
     \<or> Error (Response result) = None
        \<and> (\<exists>quote rate. parseResponseIntoQuote ext result = (quote, None)
              \<and> GetFee ext (Quote quote) feeCategory feeTy 1000 = Return (rate, Some e))"
  by (auto simp: score_def split: option.splits prod.splits outcome.splits)

lemma GetFee_loop_nil_error_nonzero:
  "GetFee_loop ext fees feeCategory feeTy txBytes = Return (rate, None) \<Longrightarrow> rate \<noteq> 0"
  by (induction ext fees feeCategory feeTy txBytes rule: GetFee_loop.induct)
     (auto simp: Let_def split: if_splits option.splits)

lemma GetFee_nil_error_nonzero:
  "GetFee ext f feeCategory feeTy txBytes = Return (rate, None) \<Longrightarrow> rate \<noteq> 0"
  by (auto simp: GetFee_def split: if_splits option.splits dest: GetFee_loop_nil_error_nonzero)

lemma score_rate_nonzero:
  "score ext feeCategory feeTy result = Return (Inr (quote, rate)) \<Longrightarrow> rate \<noteq> 0"
  by (auto simp: score_Inr_iff dest: GetFee_nil_error_nonzero)

lemma scored_iff:
  "scored ext feeCategory feeTy result \<longleftrightarrow>
     (\<exists>quote rate. score ext feeCategory feeTy result = Return (Inr (quote, rate)))"
  by (auto simp: scored_def split: outcome.splits sum.splits)

lemma rated_iff:
  "rated ext feeCategory feeTy result rate \<longleftrightarrow>
     (\<exists>quote. score ext feeCategory feeTy result = Return (Inr (quote, rate)))"
  by (auto simp: rated_def split: outcome.splits sum.splits)


lemma BestQuote_loop_first_panic:
  assumes "\<forall>p\<in>set pre. scored ext feeCategory feeTy p"
    and "score ext feeCategory feeTy r = Panic pn"
  shows "BestQuote_loop ext feeCategory feeTy (pre @ r # post) bestRate bestQuote = Panic pn"
  using assms
proof (induction pre arbitrary: bestRate bestQuote)
  case Nil
  then show ?case by (simp add: BestQuote_loop_Cons)
next
  case (Cons p pre)
  then obtain quote rate where "score ext feeCategory feeTy p = Return (Inr (quote, rate))"
    by (auto simp: scored_iff)
  with Cons show ?case
    by (simp add: BestQuote_loop_Cons)
qed


text \<open>
  When every result is scored and \<open>bestRate\<close> is set, the loop either keeps the incumbent,
  whose rate no result undercuts, or ends with the first result, in the order of the
  channel, whose rate is the least.
\<close>

lemma BestQuote_loop_selects:
  assumes "\<forall>r\<in>set rs. scored ext feeCategory feeTy r" and "bestRate \<noteq> 0"
  shows "(BestQuote_loop ext feeCategory feeTy rs bestRate bestQuote = Return (Some bestQuote, None)
          \<and> (\<forall>p\<in>set rs. \<forall>rate'. rated ext feeCategory feeTy p rate' \<longrightarrow> bestRate \<le>s rate'))
       \<or> (\<exists>pre r post quote rate.
            rs = pre @ r # post
            \<and> score ext feeCategory feeTy r = Return (Inr (quote, rate))
            \<and> BestQuote_loop ext feeCategory feeTy rs bestRate bestQuote = Return (Some quote, None)
            \<and> rate <s bestRate
            \<and> (\<forall>p\<in>set pre. \<forall>rate'. rated ext feeCategory feeTy p rate' \<longrightarrow> rate <s rate')
            \<and> (\<forall>p\<in>set post. \<forall>rate'. rated ext feeCategory feeTy p rate' \<longrightarrow> rate \<le>s rate'))"
  using assms
proof (induction rs arbitrary: bestRate bestQuote)
  case Nil
  then show ?case by (simp add: BestQuote_loop_Nil)
next
  case (Cons a rs)
  from Cons.prems obtain qa ra where a: "score ext feeCategory feeTy a = Return (Inr (qa, ra))"
    by (auto simp: scored_iff)
  then have ra: "ra \<noteq> 0" by (rule score_rate_nonzero)
  have a_rated: "\<And>rate'. rated ext feeCategory feeTy a rate' \<Longrightarrow> rate' = ra"
    using a by (simp add: rated_iff)
  from Cons.prems have rest: "\<forall>r\<in>set rs. scored ext feeCategory feeTy r" by simp
  show ?case
  proof (cases "ra <s bestRate")
    case True
    then have step: "BestQuote_loop ext feeCategory feeTy (a # rs) bestRate bestQuote
        = BestQuote_loop ext feeCategory feeTy rs ra qa"
      using a by (simp add: BestQuote_loop_Cons)
    from Cons.IH [OF rest ra, of qa] show ?thesis
    proof (elim disjE conjE exE)
      assume r: "BestQuote_loop ext feeCategory feeTy rs ra qa = Return (Some qa, None)"
        and m: "\<forall>p\<in>set rs. \<forall>rate'. rated ext feeCategory feeTy p rate' \<longrightarrow> ra \<le>s rate'"
      show ?thesis
        unfolding step
        by (rule disjI2, rule exI [of _ "[]"], rule exI [of _ a], rule exI [of _ rs],
            rule exI [of _ qa], rule exI [of _ ra]) (use a r m True in simp)
    next
      fix pre r post quote rate
      assume d: "rs = pre @ r # post"
        and s: "score ext feeCategory feeTy r = Return (Inr (quote, rate))"
        and res: "BestQuote_loop ext feeCategory feeTy rs ra qa = Return (Some quote, None)"
        and lt: "rate <s ra"
        and p1: "\<forall>p\<in>set pre. \<forall>rate'. rated ext feeCategory feeTy p rate' \<longrightarrow> rate <s rate'"
        and p2: "\<forall>p\<in>set post. \<forall>rate'. rated ext feeCategory feeTy p rate' \<longrightarrow> rate \<le>s rate'"
      have d': "a # rs = (a # pre) @ r # post" using d by simp
      have lt': "rate <s bestRate" using lt True by (simp add: word_sless_alt)
      have p1': "\<forall>p\<in>set (a # pre). \<forall>rate'. rated ext feeCategory feeTy p rate' \<longrightarrow> rate <s rate'"
        using p1 a_rated lt by auto
      show ?thesis
        unfolding step
        by (rule disjI2, rule exI [of _ "a # pre"], rule exI [of _ r], rule exI [of _ post],
            rule exI [of _ quote], rule exI [of _ rate]) (intro conjI d' s res lt' p1' p2)
    qed
  next
    case False
    then have step: "BestQuote_loop ext feeCategory feeTy (a # rs) bestRate bestQuote
        = BestQuote_loop ext feeCategory feeTy rs bestRate bestQuote"
      using a Cons.prems(2) by (simp add: BestQuote_loop_Cons)
    from False have ge: "bestRate \<le>s ra" by (simp add: word_sless_alt word_sle_eq)
    from Cons.IH [OF rest Cons.prems(2), of bestQuote] show ?thesis
    proof (elim disjE conjE exE)
      assume r: "BestQuote_loop ext feeCategory feeTy rs bestRate bestQuote = Return (Some bestQuote, None)"
        and m: "\<forall>p\<in>set rs. \<forall>rate'. rated ext feeCategory feeTy p rate' \<longrightarrow> bestRate \<le>s rate'"
      have m': "\<forall>p\<in>set (a # rs). \<forall>rate'. rated ext feeCategory feeTy p rate' \<longrightarrow> bestRate \<le>s rate'"
        using m a_rated ge by auto
      show ?thesis
        unfolding step by (rule disjI1) (intro conjI r m')
    next
      fix pre r post quote rate
      assume d: "rs = pre @ r # post"
        and s: "score ext feeCategory feeTy r = Return (Inr (quote, rate))"
        and res: "BestQuote_loop ext feeCategory feeTy rs bestRate bestQuote = Return (Some quote, None)"
        and lt: "rate <s bestRate"
        and p1: "\<forall>p\<in>set pre. \<forall>rate'. rated ext feeCategory feeTy p rate' \<longrightarrow> rate <s rate'"
        and p2: "\<forall>p\<in>set post. \<forall>rate'. rated ext feeCategory feeTy p rate' \<longrightarrow> rate \<le>s rate'"
      have d': "a # rs = (a # pre) @ r # post" using d by simp
      have "rate <s ra" using lt ge by (simp add: word_sless_alt word_sle_eq)
      then have p1': "\<forall>p\<in>set (a # pre). \<forall>rate'. rated ext feeCategory feeTy p rate' \<longrightarrow> rate <s rate'"
        using p1 a_rated by auto
      show ?thesis
        unfolding step
        by (rule disjI2, rule exI [of _ "a # pre"], rule exI [of _ r], rule exI [of _ post],
            rule exI [of _ quote], rule exI [of _ rate]) (intro conjI d' s res lt p1' p2)
    qed
  qed
qed

lemma BestQuote_loop_winner:
  assumes "\<forall>r\<in>set rs. scored ext feeCategory feeTy r" and "rs \<noteq> []"
  shows "\<exists>pre r post quote rate.
            rs = pre @ r # post
            \<and> score ext feeCategory feeTy r = Return (Inr (quote, rate))
            \<and> BestQuote_loop ext feeCategory feeTy rs 0 bestQuote = Return (Some quote, None)
            \<and> (\<forall>p\<in>set pre. \<forall>rate'. rated ext feeCategory feeTy p rate' \<longrightarrow> rate <s rate')
            \<and> (\<forall>p\<in>set post. \<forall>rate'. rated ext feeCategory feeTy p rate' \<longrightarrow> rate \<le>s rate')"
proof -
  from assms(2) obtain a rest where rs: "rs = a # rest" by (cases rs) auto
  from assms(1) rs obtain qa ra where a: "score ext feeCategory feeTy a = Return (Inr (qa, ra))"
    by (auto simp: scored_iff)
  then have ra: "ra \<noteq> 0" by (rule score_rate_nonzero)
  have a_rated: "\<And>rate'. rated ext feeCategory feeTy a rate' \<Longrightarrow> rate' = ra"
    using a by (simp add: rated_iff)
  from assms(1) rs have rest: "\<forall>r\<in>set rest. scored ext feeCategory feeTy r" by simp
  have step: "BestQuote_loop ext feeCategory feeTy rs 0 bestQuote
        = BestQuote_loop ext feeCategory feeTy rest ra qa"
    using a rs by (simp add: BestQuote_loop_Cons)
  from BestQuote_loop_selects [OF rest ra, of qa] show ?thesis
  proof (elim disjE conjE exE)
    assume r: "BestQuote_loop ext feeCategory feeTy rest ra qa = Return (Some qa, None)"
      and m: "\<forall>p\<in>set rest. \<forall>rate'. rated ext feeCategory feeTy p rate' \<longrightarrow> ra \<le>s rate'"
    show ?thesis
      unfolding step
      by (rule exI [of _ "[]"], rule exI [of _ a], rule exI [of _ rest],
          rule exI [of _ qa], rule exI [of _ ra]) (use a r m rs in simp)
  next
    fix pre r post quote rate
    assume d: "rest = pre @ r # post"
      and s: "score ext feeCategory feeTy r = Return (Inr (quote, rate))"
      and res: "BestQuote_loop ext feeCategory feeTy rest ra qa = Return (Some quote, None)"
      and lt: "rate <s ra"
      and p1: "\<forall>p\<in>set pre. \<forall>rate'. rated ext feeCategory feeTy p rate' \<longrightarrow> rate <s rate'"
      and p2: "\<forall>p\<in>set post. \<forall>rate'. rated ext feeCategory feeTy p rate' \<longrightarrow> rate \<le>s rate'"
    have d': "rs = (a # pre) @ r # post" using d rs by simp
    have p1': "\<forall>p\<in>set (a # pre). \<forall>rate'. rated ext feeCategory feeTy p rate' \<longrightarrow> rate <s rate'"
      using p1 a_rated lt by auto
    show ?thesis
      unfolding step
      by (rule exI [of _ "a # pre"], rule exI [of _ r], rule exI [of _ post],
          rule exI [of _ quote], rule exI [of _ rate]) (intro conjI d' s res p1' p2)
  qed
qed

text \<open>The channel holds the results of the configured miners, in completion order.\<close>

lemma completion_order_set:
  assumes "completion_order c sched"
  shows "set sched = {0..<length (Miners c)}"
proof -
  have "set sched = set (sort sched)" by simp
  also have "\<dots> = set [0..<length (Miners c)]"
    using assms by (simp only: completion_order_def)
  finally show ?thesis by simp
qed

lemma set_resultsChannel:
  assumes "completion_order c sched"
  shows "set (resultsChannel ext c sched) = getQuote ext c ` set (Miners c)"
proof -
  have "set (resultsChannel ext c sched) = (\<lambda>i. getQuote ext c (Miners c ! i)) ` {0..<length (Miners c)}"
    by (simp add: resultsChannel_def completion_order_set [OF assms])
  also have "\<dots> = getQuote ext c ` ((\<lambda>i. Miners c ! i) ` {0..<length (Miners c)})"
    by (simp add: image_image)
  also have "(\<lambda>i. Miners c ! i) ` {0..<length (Miners c)} = set (Miners c)"
    by (simp add: nth_image [of "length (Miners c)" "Miners c", simplified])
  finally show ?thesis .
qed

lemma resultsChannel_empty:
  assumes "completion_order c sched" and "Miners c = []"
  shows "resultsChannel ext c sched = []"
  using set_resultsChannel [OF assms(1), of ext] assms(2) by simp

lemma resultsChannel_nonempty:
  assumes "completion_order c sched" and "Miners c \<noteq> []"
  shows "resultsChannel ext c sched \<noteq> []"
proof
  assume "resultsChannel ext c sched = []"
  then have "getQuote ext c ` set (Miners c) = {}"
    using set_resultsChannel [OF assms(1), of ext] by simp
  with assms(2) show False by simp
qed

lemma BestQuote_selects_minimum:
  assumes co: "completion_order c sched" and ne: "Miners c \<noteq> []"
    and all: "\<forall>m\<in>set (Miners c). scored ext feeCategory feeTy (getQuote ext c m)"
  shows "\<exists>pre r post quote rate.
           resultsChannel ext c sched = pre @ r # post
         \<and> score ext feeCategory feeTy r = Return (Inr (quote, rate))
         \<and> BestQuote ext c feeCategory feeTy sched = Return (Some quote, None)
         \<and> (\<forall>m\<in>set (Miners c). \<forall>rate'.
               rated ext feeCategory feeTy (getQuote ext c m) rate' \<longrightarrow> rate \<le>s rate')
         \<and> (\<forall>p\<in>set pre. \<forall>rate'. rated ext feeCategory feeTy p rate' \<longrightarrow> rate <s rate')"
proof -
  let ?rs = "resultsChannel ext c sched"
  have sc: "\<forall>r\<in>set ?rs. scored ext feeCategory feeTy r"
    using all by (simp add: set_resultsChannel [OF co])
  have nonempty: "?rs \<noteq> []" using co ne by (rule resultsChannel_nonempty)
  from BestQuote_loop_winner [OF sc nonempty, of zeroFeeQuoteResponse]
  obtain pre r post quote rate where d: "?rs = pre @ r # post"
    and s: "score ext feeCategory feeTy r = Return (Inr (quote, rate))"
    and res: "BestQuote_loop ext feeCategory feeTy ?rs 0 zeroFeeQuoteResponse = Return (Some quote, None)"
    and p1: "\<forall>p\<in>set pre. \<forall>rate'. rated ext feeCategory feeTy p rate' \<longrightarrow> rate <s rate'"
    and p2: "\<forall>p\<in>set post. \<forall>rate'. rated ext feeCategory feeTy p rate' \<longrightarrow> rate \<le>s rate'"
    by blast
  have self: "\<forall>rate'. rated ext feeCategory feeTy r rate' \<longrightarrow> rate \<le>s rate'"
    using s by (simp add: rated_iff word_sle_eq)
  have "\<forall>p\<in>set ?rs. \<forall>rate'. rated ext feeCategory feeTy p rate' \<longrightarrow> rate \<le>s rate'"
  proof (intro ballI allI impI)
    fix p rate' assume p: "p \<in> set ?rs" and r': "rated ext feeCategory feeTy p rate'"
    from p d consider "p \<in> set pre" | "p = r" | "p \<in> set post" by auto
    then show "rate \<le>s rate'"
    proof cases
      case 1
      with p1 r' have "rate <s rate'" by blast
      then show ?thesis by (simp add: word_sless_alt word_sle_eq)
    next
      case 2
      with self r' show ?thesis by blast
    next
      case 3
      with p2 r' show ?thesis by blast
    qed
  qed
  then have glob: "\<forall>m\<in>set (Miners c). \<forall>rate'.
               rated ext feeCategory feeTy (getQuote ext c m) rate' \<longrightarrow> rate \<le>s rate'"
    by (simp add: set_resultsChannel [OF co])
  have res': "BestQuote ext c feeCategory feeTy sched = Return (Some quote, None)"
    using res by (simp add: BestQuote_def)
  show ?thesis
    by (rule exI [of _ pre], rule exI [of _ r], rule exI [of _ post],
        rule exI [of _ quote], rule exI [of _ rate]) (intro conjI d s res' glob p1)
qed


lemma score_transport_error:
  "Error (Response r) = Some e \<Longrightarrow> score ext feeCategory feeTy r = Return (Inl e)"
  by (simp add: score_def)



lemma BestQuote_negative_wins:
  assumes co: "completion_order c sched" and m0: "m0 \<in> set (Miners c)"
    and s0: "score ext feeCategory feeTy (getQuote ext c m0) = Return (Inr (q0, rate0))"
    and neg: "rate0 <s 0"
    and others: "\<forall>m\<in>set (Miners c). m \<noteq> m0 \<longrightarrow>
          (case score ext feeCategory feeTy (getQuote ext c m) of
             Return (Inr (q, rate')) \<Rightarrow> 0 <s rate'
           | _ \<Rightarrow> False)"
  shows "BestQuote ext c feeCategory feeTy sched = Return (Some q0, None)"
proof -
  have ne: "Miners c \<noteq> []" using m0 by auto
  have all: "\<forall>m\<in>set (Miners c). scored ext feeCategory feeTy (getQuote ext c m)"
  proof
    fix m assume m: "m \<in> set (Miners c)"
    show "scored ext feeCategory feeTy (getQuote ext c m)"
    proof (cases "m = m0")
      case True
      then show ?thesis using s0 by (simp add: scored_iff)
    next
      case False
      with others m have "case score ext feeCategory feeTy (getQuote ext c m) of
             Return (Inr (q, rate')) \<Rightarrow> 0 <s rate'
           | _ \<Rightarrow> False"
        by blast
      then show ?thesis
        by (simp add: scored_def split: outcome.splits sum.splits prod.splits)
    qed
  qed
  from BestQuote_selects_minimum [OF co ne all]
  obtain pre r post quote rate where d: "resultsChannel ext c sched = pre @ r # post"
    and s: "score ext feeCategory feeTy r = Return (Inr (quote, rate))"
    and res: "BestQuote ext c feeCategory feeTy sched = Return (Some quote, None)"
    and glob: "\<forall>m\<in>set (Miners c). \<forall>rate'.
               rated ext feeCategory feeTy (getQuote ext c m) rate' \<longrightarrow> rate \<le>s rate'"
    by blast
  have "rated ext feeCategory feeTy (getQuote ext c m0) rate0"
    using s0 by (auto simp: rated_iff)
  with glob m0 have "rate \<le>s rate0" by blast
  with neg have rneg: "rate <s 0" by (simp add: word_sless_alt word_sle_eq)
  have "r \<in> set (resultsChannel ext c sched)" using d by simp
  then obtain m where m: "m \<in> set (Miners c)" and r: "r = getQuote ext c m"
    by (auto simp: set_resultsChannel [OF co])
  have "m = m0"
  proof (rule ccontr)
    assume "m \<noteq> m0"
    with others m have "case score ext feeCategory feeTy (getQuote ext c m) of
             Return (Inr (q, rate')) \<Rightarrow> 0 <s rate'
           | _ \<Rightarrow> False"
      by blast
    with s r have "0 <s rate" by simp
    with rneg show False by (simp add: word_sless_alt)
  qed
  with s r s0 have "quote = q0" by simp
  with res show ?thesis by simp
qed

section \<open>The claims\<close>

text \<open>
  Claim C1, as amended. For every response whose envelope decodes without error, whose
  payload, when it is not empty, decodes without error after the stripping, and whose
  signature and public key are both non-empty: the calls are the decoding of the body, the
  decoding of the stripped payload (when the payload is not empty), the digest of the
  stripped payload and the verifier on that digest, the public key and the signature. The
  step hashes \<open>response.Payload\<close> after it has been overwritten with the stripped string:
  the flag and the error returned are the verifier's on the digest of the stripped
  payload, and the payload of the response is the stripped string.
\<close>

theorem parse_hashes_stripped_payload:
  assumes "jsonUnmarshalResponse ext (BodyContents (Response result))
              (zeroFeeQuoteResponse\<lparr>Miner := ResultMiner result\<rparr>) = (response1, None)"
    and "Payload response1 \<noteq> [] \<longrightarrow>
           snd (jsonUnmarshalQuote ext (stripBackslashes (Payload response1)) (Quote response1)) = None"
    and "Signature response1 \<noteq> []" and "PublicKey response1 \<noteq> []"
  shows "snd (parseResponseIntoQuote_calls ext result) =
           Call_UnmarshalResponse (BodyContents (Response result))
           # (if Payload response1 \<noteq> []
              then [Call_UnmarshalQuote (stripBackslashes (Payload response1))] else [])
           @ [Call_Sum256 (stripBackslashes (Payload response1)),
              Call_VerifyMessageDER (Sum256 ext (stripBackslashes (Payload response1)))
                (PublicKey response1) (Signature response1)]
       \<and> Validated (fst (parseResponseIntoQuote ext result)) =
           fst (VerifyMessageDER ext (Sum256 ext (stripBackslashes (Payload response1)))
                  (PublicKey response1) (Signature response1))
       \<and> snd (parseResponseIntoQuote ext result) =
           snd (VerifyMessageDER ext (Sum256 ext (stripBackslashes (Payload response1)))
                  (PublicKey response1) (Signature response1))
       \<and> Payload (fst (parseResponseIntoQuote ext result)) = stripBackslashes (Payload response1)"
proof -
  let ?r2 = "fst (fst (unmarshalPayload ext response1))"
  note u = unmarshalPayload_facts [OF assms(2)]
  note p = parse_steps [OF assms(1) u(1)]
  have v: "validateSignature ext ?r2 =
      ((?r2\<lparr>Validated := fst (VerifyMessageDER ext (Sum256 ext (stripBackslashes (Payload response1)))
                  (PublicKey response1) (Signature response1))\<rparr>,
        snd (VerifyMessageDER ext (Sum256 ext (stripBackslashes (Payload response1)))
                  (PublicKey response1) (Signature response1))),
       [Call_Sum256 (stripBackslashes (Payload response1)),
        Call_VerifyMessageDER (Sum256 ext (stripBackslashes (Payload response1)))
                (PublicKey response1) (Signature response1)])"
    using assms(3,4) by (simp add: validateSignature_def u(2,3,4) Let_def split_def)
  show ?thesis
    by (simp add: parseResponseIntoQuote_def p v u(2,5))
qed

text \<open>The theorem of C1 at the signing peer: the calls the parse makes.\<close>

theorem parse_hashes_stripped_payload_witness:
  "snd (parseResponseIntoQuote_calls (signingPeer [])
          (getQuote (signingPeer []) \<lparr>Miners = [miner ''a'']\<rparr> (miner ''a'')))
     = [Call_UnmarshalResponse ''body'',
        Call_UnmarshalQuote (stripBackslashes wirePayload),
        Call_Sum256 (stripBackslashes wirePayload),
        Call_VerifyMessageDER (Sum256 (signingPeer []) (stripBackslashes wirePayload)) ''key'' ''sig'']"
proof -
  let ?ext = "signingPeer []"
  let ?result = "getQuote ?ext \<lparr>Miners = [miner ''a'']\<rparr> (miner ''a'')"
  let ?r1 = "fst (jsonUnmarshalResponse ?ext (BodyContents (Response ?result))
              (zeroFeeQuoteResponse\<lparr>Miner := ResultMiner ?result\<rparr>))"
  have h1: "jsonUnmarshalResponse ?ext (BodyContents (Response ?result))
              (zeroFeeQuoteResponse\<lparr>Miner := ResultMiner ?result\<rparr>) = (?r1, None)"
    by code_simp
  have h2: "Payload ?r1 \<noteq> [] \<longrightarrow>
           snd (jsonUnmarshalQuote ?ext (stripBackslashes (Payload ?r1)) (Quote ?r1)) = None"
    by code_simp
  have h3: "Signature ?r1 \<noteq> []" by code_simp
  have h4: "PublicKey ?r1 \<noteq> []" by code_simp
  have e0: "BodyContents (Response ?result) = ''body''" by code_simp
  let ?r1' = "fst (jsonUnmarshalResponse ?ext ''body''
              (zeroFeeQuoteResponse\<lparr>Miner := ResultMiner ?result\<rparr>))"
  have e1: "Payload ?r1' = wirePayload" by code_simp
  have e2: "Signature ?r1' = ''sig''" by code_simp
  have e3: "PublicKey ?r1' = ''key''" by code_simp
  have e4: "wirePayload \<noteq> []" by code_simp
  note c = parse_hashes_stripped_payload [OF h1 h2 h3 h4, THEN conjunct1]
  show ?thesis
    using c unfolding e0 e1 e2 e3 using e4 by simp
qed

text \<open>
  Claim C1 as stated fails on a payload that holds backslashes: the digest that reaches the
  verifier is that of the stripped string, which differs from the digest of the payload
  as decoded from the envelope, and a verifier that accepts only the latter leaves
  \<open>Validated\<close> false.
\<close>

theorem parse_hashes_wire_payload_counterexample:
  "snd (parseResponseIntoQuote_calls wireSigned
          (getQuote wireSigned \<lparr>Miners = [miner ''a'']\<rparr> (miner ''a'')))
     = [Call_UnmarshalResponse ''body'',
        Call_UnmarshalQuote (stripBackslashes wirePayload),
        Call_Sum256 (stripBackslashes wirePayload),
        Call_VerifyMessageDER (Sum256 wireSigned (stripBackslashes wirePayload)) ''key'' ''sig'']
   \<and> stripBackslashes wirePayload \<noteq> wirePayload
   \<and> Sum256 wireSigned (stripBackslashes wirePayload) \<noteq> Sum256 wireSigned wirePayload
   \<and> fst (VerifyMessageDER wireSigned (Sum256 wireSigned wirePayload) ''key'' ''sig'') = True
   \<and> Validated (fst (parseResponseIntoQuote wireSigned
          (getQuote wireSigned \<lparr>Miners = [miner ''a'']\<rparr> (miner ''a'')))) = False"
  by code_simp

text \<open>
  Claim C2, as amended. For every response whose envelope decodes without error, whose
  payload, when it is not empty, decodes without error after the stripping, and whose
  signature and public key are both non-empty: what the verifier returns for the call of
  the step is what the step returns, the flag in \<open>Validated\<close> and the error as the error,
  with the decoded quote in the response. So a verifier that returns false with a nil
  error gives the quote with \<open>Validated\<close> false and a nil error; only an error of the
  verifier is an error of the step.
\<close>

theorem parse_reports_verifier_flag:
  assumes "jsonUnmarshalResponse ext (BodyContents (Response result))
              (zeroFeeQuoteResponse\<lparr>Miner := ResultMiner result\<rparr>) = (response1, None)"
    and "Payload response1 \<noteq> [] \<longrightarrow>
           snd (jsonUnmarshalQuote ext (stripBackslashes (Payload response1)) (Quote response1)) = None"
    and "Signature response1 \<noteq> []" and "PublicKey response1 \<noteq> []"
    and "VerifyMessageDER ext (Sum256 ext (stripBackslashes (Payload response1)))
           (PublicKey response1) (Signature response1) = (validated, err)"
  shows "snd (parseResponseIntoQuote ext result) = err
       \<and> Validated (fst (parseResponseIntoQuote ext result)) = validated
       \<and> Quote (fst (parseResponseIntoQuote ext result))
           = (if Payload response1 \<noteq> []
              then fst (jsonUnmarshalQuote ext (stripBackslashes (Payload response1)) (Quote response1))
              else Quote response1)"
proof -
  let ?r2 = "fst (fst (unmarshalPayload ext response1))"
  note u = unmarshalPayload_facts [OF assms(2)]
  note p = parse_steps [OF assms(1) u(1)]
  have q: "Quote ?r2 = (if Payload response1 \<noteq> []
              then fst (jsonUnmarshalQuote ext (stripBackslashes (Payload response1)) (Quote response1))
              else Quote response1)"
    by (simp add: unmarshalPayload_def Let_def split_def)
  have v: "fst (validateSignature ext ?r2) = (?r2\<lparr>Validated := validated\<rparr>, err)"
    using assms(3,4,5) by (simp add: validateSignature_def u(2,3,4) Let_def split_def)
  show ?thesis
    by (simp add: parseResponseIntoQuote_def p v q)
qed

text \<open>The theorem of C2 at the signing peer with a verifier that accepts nothing.\<close>

theorem parse_reports_verifier_flag_witness:
  "snd (parseResponseIntoQuote (signingPeer [])
          (getQuote (signingPeer []) \<lparr>Miners = [miner ''a'']\<rparr> (miner ''a''))) = None
   \<and> Validated (fst (parseResponseIntoQuote (signingPeer [])
          (getQuote (signingPeer []) \<lparr>Miners = [miner ''a'']\<rparr> (miner ''a'')))) = False"
proof -
  let ?ext = "signingPeer []"
  let ?result = "getQuote ?ext \<lparr>Miners = [miner ''a'']\<rparr> (miner ''a'')"
  let ?r1 = "fst (jsonUnmarshalResponse ?ext (BodyContents (Response ?result))
              (zeroFeeQuoteResponse\<lparr>Miner := ResultMiner ?result\<rparr>))"
  have h1: "jsonUnmarshalResponse ?ext (BodyContents (Response ?result))
              (zeroFeeQuoteResponse\<lparr>Miner := ResultMiner ?result\<rparr>) = (?r1, None)"
    by code_simp
  have h2: "Payload ?r1 \<noteq> [] \<longrightarrow>
           snd (jsonUnmarshalQuote ?ext (stripBackslashes (Payload ?r1)) (Quote ?r1)) = None"
    by code_simp
  have h3: "Signature ?r1 \<noteq> []" by code_simp
  have h4: "PublicKey ?r1 \<noteq> []" by code_simp
  have h5: "VerifyMessageDER ?ext (Sum256 ?ext (stripBackslashes (Payload ?r1)))
           (PublicKey ?r1) (Signature ?r1) = (False, None)"
    by code_simp
  note c = parse_reports_verifier_flag [OF h1 h2 h3 h4 h5]
  from c show ?thesis by blast
qed

text \<open>
  Claim C2 as stated fails when the verifier returns false: the parse returns the quote
  with \<open>Validated\<close> false and a nil error, and \<open>FeeQuote\<close> and \<open>BestQuote\<close> return that
  quote.
\<close>

theorem parse_verifier_false_counterexample:
  "fst (VerifyMessageDER (signingPeer []) (Sum256 (signingPeer []) (stripBackslashes wirePayload))
          ''key'' ''sig'') = False
   \<and> fst (VerifyMessageDER (signingPeer []) (Sum256 (signingPeer []) wirePayload)
          ''key'' ''sig'') = False
   \<and> snd (parseResponseIntoQuote (signingPeer [])
          (getQuote (signingPeer []) \<lparr>Miners = [miner ''a'']\<rparr> (miner ''a''))) = None
   \<and> Validated (fst (parseResponseIntoQuote (signingPeer [])
          (getQuote (signingPeer []) \<lparr>Miners = [miner ''a'']\<rparr> (miner ''a'')))) = False
   \<and> Quote (fst (parseResponseIntoQuote (signingPeer [])
          (getQuote (signingPeer []) \<lparr>Miners = [miner ''a'']\<rparr> (miner ''a''))))
       = Some (schedule [Some (feeEntry ''standard'' 500 1000)])
   \<and> FeeQuote (signingPeer []) \<lparr>Miners = [miner ''a'']\<rparr> (Some (miner ''a''))
       = (Some (fst (parseResponseIntoQuote (signingPeer [])
            (getQuote (signingPeer []) \<lparr>Miners = [miner ''a'']\<rparr> (miner ''a'')))), None)
   \<and> BestQuote (signingPeer []) \<lparr>Miners = [miner ''a'']\<rparr> ''mining'' ''standard'' [0]
       = Return (Some (fst (parseResponseIntoQuote (signingPeer [])
            (getQuote (signingPeer []) \<lparr>Miners = [miner ''a'']\<rparr> (miner ''a'')))), None)"
  by code_simp




text \<open>
  Claim C4. For every non-empty peer set, in any completion order, all of whose results
  are scored (the fetch has no error, the parse and the verifier return no error, and
  \<open>GetFee\<close> at 1000 bytes returns a rate with a nil error), \<open>BestQuote\<close> returns the quote of
  a result of the channel whose rate is at most the rate of every peer, and strictly
  below the rate of every result drained before it: the global minimum, which for
  distinct rates is the only one, and among equal rates the one drained first. The rates
  need be neither positive nor distinct for this.
\<close>

theorem BestQuote_global_minimum:
  assumes "completion_order c sched" and "Miners c \<noteq> []"
    and "\<forall>m\<in>set (Miners c). scored ext feeCategory feeTy (getQuote ext c m)"
  shows "\<exists>pre r post quote rate.
           resultsChannel ext c sched = pre @ r # post
         \<and> score ext feeCategory feeTy r = Return (Inr (quote, rate))
         \<and> BestQuote ext c feeCategory feeTy sched = Return (Some quote, None)
         \<and> (\<forall>m\<in>set (Miners c). \<forall>rate'.
               rated ext feeCategory feeTy (getQuote ext c m) rate' \<longrightarrow> rate \<le>s rate')
         \<and> (\<forall>p\<in>set pre. \<forall>rate'. rated ext feeCategory feeTy p rate' \<longrightarrow> rate <s rate')"
  using assms by (rule BestQuote_selects_minimum)

text \<open>
  The theorem of C4 at three peers quoting 500, 400 and 450, drained in the order third,
  first, second: the quote of the second peer is returned.
\<close>

theorem BestQuote_global_minimum_witness:
  "(\<exists>pre r post quote rate.
      resultsChannel threePeers threeMiners [2, 0, 1] = pre @ r # post
    \<and> score threePeers ''mining'' ''standard'' r = Return (Inr (quote, rate))
    \<and> BestQuote threePeers threeMiners ''mining'' ''standard'' [2, 0, 1] = Return (Some quote, None)
    \<and> (\<forall>m\<in>set (Miners threeMiners). \<forall>rate'.
          rated threePeers ''mining'' ''standard'' (getQuote threePeers threeMiners m) rate'
          \<longrightarrow> rate \<le>s rate')
    \<and> (\<forall>p\<in>set pre. \<forall>rate'.
          rated threePeers ''mining'' ''standard'' p rate' \<longrightarrow> rate <s rate'))
   \<and> BestQuote threePeers threeMiners ''mining'' ''standard'' [2, 0, 1]
       = Return (Some (fst (parseResponseIntoQuote threePeers
                    (getQuote threePeers threeMiners (miner ''b'')))), None)"
proof (rule conjI)
  show "\<exists>pre r post quote rate.
      resultsChannel threePeers threeMiners [2, 0, 1] = pre @ r # post
    \<and> score threePeers ''mining'' ''standard'' r = Return (Inr (quote, rate))
    \<and> BestQuote threePeers threeMiners ''mining'' ''standard'' [2, 0, 1] = Return (Some quote, None)
    \<and> (\<forall>m\<in>set (Miners threeMiners). \<forall>rate'.
          rated threePeers ''mining'' ''standard'' (getQuote threePeers threeMiners m) rate'
          \<longrightarrow> rate \<le>s rate')
    \<and> (\<forall>p\<in>set pre. \<forall>rate'.
          rated threePeers ''mining'' ''standard'' p rate' \<longrightarrow> rate <s rate')"
  proof (rule BestQuote_global_minimum)
    show "completion_order threeMiners [2, 0, 1]"
      by code_simp
    show "Miners threeMiners \<noteq> []"
      by code_simp
    show "\<forall>m\<in>set (Miners threeMiners).
            scored threePeers ''mining'' ''standard'' (getQuote threePeers threeMiners m)"
      by code_simp
  qed
  show "BestQuote threePeers threeMiners ''mining'' ''standard'' [2, 0, 1]
       = Return (Some (fst (parseResponseIntoQuote threePeers
                    (getQuote threePeers threeMiners (miner ''b'')))), None)"
    by code_simp
qed

text \<open>
  Claim C5 at the empty peer set: \<open>BestQuote\<close> returns the zero value of
  \<open>FeeQuoteResponse\<close>, with a nil miner and a nil quote, and a nil error, where \<open>FeeQuote\<close>
  answers a nil miner with an error.
\<close>

theorem BestQuote_empty_peer_set:
  "BestQuote (mockExternals [] [] [] []) \<lparr>Miners = []\<rparr> ''mining'' ''standard'' []
     = Return (Some zeroFeeQuoteResponse, None)
   \<and> Quote zeroFeeQuoteResponse = None
   \<and> Miner zeroFeeQuoteResponse = None
   \<and> completion_order \<lparr>Miners = []\<rparr> []
   \<and> FeeQuote (mockExternals [] [] [] []) \<lparr>Miners = []\<rparr> None
       = (None, Some (Errorf ''miner was nil''))"
  by code_simp

text \<open>
  Claim C6 at concrete inputs: the scan compares the tag with \<open>==\<close>. An entry tagged
  \<open>Standard\<close> does not match a request for \<open>standard\<close>, and a request for \<open>STANDARD\<close>,
  which the parameter check accepts, does not match an entry tagged \<open>standard\<close>; the
  category, in contrast, is matched without regard to case.
\<close>

theorem GetFee_tag_comparison_exact:
  "GetFee (mockExternals [] [] [] []) (Some (schedule [Some (feeEntry ''Standard'' 500 1000)]))
      ''mining'' ''standard'' 1000
     = Return (1, Some (Errorf ''feeType standard is not found in fees''))
   \<and> EqualFold (hasUnicode (mockExternals [] [] [] [])) ''STANDARD'' FeeTypeStandard
   \<and> GetFee (mockExternals [] [] [] []) (Some (schedule [Some (feeEntry ''standard'' 500 1000)]))
      ''mining'' ''STANDARD'' 1000
     = Return (1, Some (Errorf ''feeType STANDARD is not found in fees''))
   \<and> GetFee (mockExternals [] [] [] []) (Some (schedule [Some (feeEntry ''standard'' 500 1000)]))
      ''MINING'' ''standard'' 1000
     = Return (500, None)"
  by (simp add: GetFee_eval)




text \<open>
  Claim C8, as amended. For recognised parameters and a schedule in which the entries
  before the matching one are non-null with tags that do not match the requested type
  (neither exactly nor without regard to case), the tag of the matching entry is the
  requested type, its rate for the category is present with a positive byte denominator
  and the product \<open>satoshis * byteCount\<close> is in the range of \<open>int64\<close>: the computed fee is
  the quotient of \<open>satoshis * byteCount\<close> by \<open>bytes\<close> truncated towards zero, which is the
  floor quotient when the product is not negative; \<open>GetFee\<close> returns it with a nil error when
  it is not zero, and 1 with the warning otherwise. With \<open>standard\<close>, \<open>mining\<close>, rate
  \<open>{satoshis: 500, bytes: 1000}\<close> and byteCount 1000 the result is 500 with a nil error.
\<close>

theorem GetFee_truncated_quotient:
  assumes "EqualFold (hasUnicode ext) feeTy FeeTypeData
             \<or> EqualFold (hasUnicode ext) feeTy FeeTypeStandard"
    and "EqualFold (hasUnicode ext) feeCategory FeeCategoryMining
             \<or> EqualFold (hasUnicode ext) feeCategory FeeCategoryRelay"
    and "Fees f = map Some pre @ Some fee # post"
    and "\<forall>e\<in>set pre. FeeType e \<noteq> feeTy \<and> \<not> EqualFold (hasUnicode ext) (FeeType e) feeTy"
    and "FeeType fee = feeTy \<and> EqualFold (hasUnicode ext) (FeeType fee) feeTy"
    and "(if EqualFold (hasUnicode ext) feeCategory FeeCategoryMining
          then MiningFee fee else RelayFee fee) = Some rate"
    and "0 <s Bytes rate"
    and "- (2 ^ 63) \<le> sint (Satoshis rate) * sint txBytes"
    and "sint (Satoshis rate) * sint txBytes < 2 ^ 63"
  shows "GetFee ext (Some f) feeCategory feeTy txBytes =
           (if quo64 (Satoshis rate * txBytes) (Bytes rate) \<noteq> 0
            then Return (quo64 (Satoshis rate * txBytes) (Bytes rate), None)
            else Return (1, Some (Errorf ''warning: fee calculation was 0'')))
       \<and> sint (quo64 (Satoshis rate * txBytes) (Bytes rate)) =
            (sint (Satoshis rate) * sint txBytes) sdiv sint (Bytes rate)
       \<and> (0 \<le> sint (Satoshis rate) * sint txBytes \<longrightarrow>
          sint (quo64 (Satoshis rate * txBytes) (Bytes rate)) =
            (sint (Satoshis rate) * sint txBytes) div sint (Bytes rate))
       \<and> GetFee ext (Some (schedule [Some (feeEntry ''standard'' 500 1000)]))
            ''mining'' ''standard'' 1000 = Return (500, None)"
proof (intro conjI impI)
  have nz: "Bytes rate \<noteq> 0" using assms(7) by auto
  have pre: "\<forall>e\<in>set pre. FeeType e \<noteq> feeTy" using assms(4) by blast
  have tag: "FeeType fee = feeTy" using assms(5) by blast
  show "GetFee ext (Some f) feeCategory feeTy txBytes =
           (if quo64 (Satoshis rate * txBytes) (Bytes rate) \<noteq> 0
            then Return (quo64 (Satoshis rate * txBytes) (Bytes rate), None)
            else Return (1, Some (Errorf ''warning: fee calculation was 0'')))"
    using assms(1-3) pre tag assms(6) nz by (rule GetFee_first_match)
  show t: "sint (quo64 (Satoshis rate * txBytes) (Bytes rate)) =
            (sint (Satoshis rate) * sint txBytes) sdiv sint (Bytes rate)"
    using assms(7-9) by (rule sint_quo64_trunc)
  show "sint (quo64 (Satoshis rate * txBytes) (Bytes rate)) =
            (sint (Satoshis rate) * sint txBytes) div sint (Bytes rate)"
    if nn: "0 \<le> sint (Satoshis rate) * sint txBytes"
  proof -
    have b: "0 < sint (Bytes rate)" using assms(7) by (simp add: word_sless_alt)
    have "(sint (Satoshis rate) * sint txBytes) sdiv sint (Bytes rate)
        = (sint (Satoshis rate) * sint txBytes) div sint (Bytes rate)"
      using nn b by (rule sdiv_eq_div_nonneg)
    with t show ?thesis by simp
  qed
  show "GetFee ext (Some (schedule [Some (feeEntry ''standard'' 500 1000)]))
            ''mining'' ''standard'' 1000 = Return (500, None)"
    by (simp add: GetFee_def FeeTypeData_def FeeTypeStandard_def FeeCategoryMining_def
        FeeCategoryRelay_def asciiFoldEq_def quo64_def signed_divide_int_def schedule_def
        feeEntry_def)
qed

text \<open>
  The theorem of C8 at a schedule with a \<open>data\<close> entry before the \<open>standard\<close> one, the
  relay rate \<open>{satoshis: -250, bytes: 1000}\<close> and 2001 bytes: the quotient of \<open>-500250\<close> by
  1000 is truncated to \<open>-500\<close>.
\<close>

theorem GetFee_truncated_quotient_witness:
  "GetFee (mockExternals [] [] [] [])
      (Some (schedule [Some (feeEntry ''data'' 7 1), Some (feeEntry ''standard'' (- 250) 1000)]))
      ''relay'' ''standard'' 2001 = Return (- 500, None)
   \<and> sint (quo64 (- 250 * 2001) (1000 :: int64)) = (- 250 * 2001) sdiv 1000"
proof -
  let ?ext = "mockExternals [] [] [] []"
  let ?f = "schedule [Some (feeEntry ''data'' 7 1), Some (feeEntry ''standard'' (- 250) 1000)]"
  let ?rate = "\<lparr>Bytes = 1000 :: int64, Satoshis = - 250 :: int64\<rparr>"
  have h1: "EqualFold (hasUnicode ?ext) ''standard'' FeeTypeData
             \<or> EqualFold (hasUnicode ?ext) ''standard'' FeeTypeStandard"
    by code_simp
  have h2: "EqualFold (hasUnicode ?ext) ''relay'' FeeCategoryMining
             \<or> EqualFold (hasUnicode ?ext) ''relay'' FeeCategoryRelay"
    by code_simp
  have h3: "Fees ?f = map Some [feeEntry ''data'' 7 1] @ Some (feeEntry ''standard'' (- 250) 1000) # []"
    by (simp add: schedule_def)
  have h4: "\<forall>e\<in>set [feeEntry ''data'' 7 1].
      FeeType e \<noteq> ''standard'' \<and> \<not> EqualFold (hasUnicode ?ext) (FeeType e) ''standard''"
    by code_simp
  have h5: "FeeType (feeEntry ''standard'' (- 250) 1000) = ''standard''
      \<and> EqualFold (hasUnicode ?ext) (FeeType (feeEntry ''standard'' (- 250) 1000)) ''standard''"
    by code_simp
  have h6: "(if EqualFold (hasUnicode ?ext) ''relay'' FeeCategoryMining
          then MiningFee (feeEntry ''standard'' (- 250) 1000)
          else RelayFee (feeEntry ''standard'' (- 250) 1000)) = Some ?rate"
    by code_simp
  have h7: "0 <s Bytes ?rate"
    by (simp add: word_sless_alt)
  have h8: "- (2 ^ 63) \<le> sint (Satoshis ?rate) * sint (2001 :: int64)"
    by simp
  have h9: "sint (Satoshis ?rate) * sint (2001 :: int64) < 2 ^ 63"
    by simp
  note c = GetFee_truncated_quotient [OF h1 h2 h3 h4 h5 h6 h7 h8 h9]
  from c show ?thesis
    by (simp add: quo64_def signed_divide_int_def)
qed

text \<open>
  Claim C8 as stated fails for a negative rate: with \<open>{satoshis: -1000, bytes: 3}\<close> and one
  byte the code returns \<open>-333\<close> (truncation), where floor division gives \<open>-334\<close>.
\<close>

theorem GetFee_floor_counterexample:
  "0 <s (3 :: int64)
   \<and> GetFee (mockExternals [] [] [] []) (Some (schedule [Some (feeEntry ''standard'' (- 1000) 3)]))
       ''mining'' ''standard'' 1 = Return (- 333, None)
   \<and> sint (- 333 :: int64) = - 333
   \<and> (sint (- 1000 :: int64) * sint (1 :: int64)) div sint (3 :: int64) = - 334"
  by (simp add: GetFee_eval word_sless_alt)

text \<open>
  Claim C9 at concrete inputs: a matching entry with a byte denominator of zero makes
  \<open>GetFee\<close> panic with a division by zero, a matching entry without a fee amount and a
  response without a payload make it panic with a nil dereference, and the panic goes
  through \<open>BestQuote\<close>.
\<close>

theorem GetFee_panics_on_peer_data:
  "GetFee (mockExternals [] [] [] []) (Some (schedule [Some (feeEntry ''standard'' 500 0)]))
      ''mining'' ''standard'' 1000
     = Panic IntegerDivideByZero
   \<and> GetFee (mockExternals [] [] [] [])
      (Some (schedule [Some \<lparr>FeeType = ''standard'', MiningFee = None, RelayFee = None\<rparr>]))
      ''mining'' ''standard'' 1000
     = Panic NilPointerDereference
   \<and> GetFee (mockExternals [] [] [] []) (Some (schedule [None])) ''mining'' ''standard'' 1000
     = Panic NilPointerDereference
   \<and> GetFee (mockExternals [] [] [] []) None ''mining'' ''standard'' 1000
     = Panic NilPointerDereference
   \<and> BestQuote (quotingPeers [(''a'', [Some (feeEntry ''standard'' 500 0)])])
      \<lparr>Miners = [miner ''a'']\<rparr> ''mining'' ''standard'' [0]
     = Panic IntegerDivideByZero"
  by code_simp

text \<open>
  Claim C10, as amended. The fee calculator validates no sign. For recognised parameters
  and a schedule in which the entries before the matching one are non-null with tags that
  do not match the requested type (neither exactly nor without regard to case), the tag of
  the matching entry is the requested type, and its rate for the category has negative
  satoshis and a positive byte denominator, at a positive byte count for which the
  product \<open>satoshis * byteCount\<close> is in the range of \<open>int64\<close> and at least \<open>bytes\<close> in
  magnitude: the quotient truncated towards zero is negative and \<open>GetFee\<close> returns it with
  a nil error. In an aggregation, in any completion order, in which one peer is scored
  with a negative rate and every other peer with a positive rate, the quote with the
  negative rate is returned.
\<close>

theorem GetFee_negative_fee:
  assumes "EqualFold (hasUnicode ext) feeTy FeeTypeData
             \<or> EqualFold (hasUnicode ext) feeTy FeeTypeStandard"
    and "EqualFold (hasUnicode ext) feeCategory FeeCategoryMining
             \<or> EqualFold (hasUnicode ext) feeCategory FeeCategoryRelay"
    and "Fees f = map Some pre @ Some fee # post"
    and "\<forall>e\<in>set pre. FeeType e \<noteq> feeTy \<and> \<not> EqualFold (hasUnicode ext) (FeeType e) feeTy"
    and "FeeType fee = feeTy \<and> EqualFold (hasUnicode ext) (FeeType fee) feeTy"
    and "(if EqualFold (hasUnicode ext) feeCategory FeeCategoryMining
          then MiningFee fee else RelayFee fee) = Some rate"
    and "sint (Satoshis rate) < 0" and "0 < sint txBytes" and "0 < sint (Bytes rate)"
    and "- (2 ^ 63) \<le> sint (Satoshis rate) * sint txBytes"
    and "sint (Bytes rate) \<le> - (sint (Satoshis rate) * sint txBytes)"
  shows "GetFee ext (Some f) feeCategory feeTy txBytes
           = Return (quo64 (Satoshis rate * txBytes) (Bytes rate), None)
       \<and> sint (quo64 (Satoshis rate * txBytes) (Bytes rate))
           = (sint (Satoshis rate) * sint txBytes) sdiv sint (Bytes rate)
       \<and> quo64 (Satoshis rate * txBytes) (Bytes rate) <s 0
       \<and> (\<forall>c sched m0 q0 rate0.
             completion_order c sched \<and> m0 \<in> set (Miners c)
             \<and> score ext feeCategory feeTy (getQuote ext c m0) = Return (Inr (q0, rate0))
             \<and> rate0 <s 0
             \<and> (\<forall>m\<in>set (Miners c). m \<noteq> m0 \<longrightarrow>
                   (case score ext feeCategory feeTy (getQuote ext c m) of
                      Return (Inr (q, rate')) \<Rightarrow> 0 <s rate'
                    | _ \<Rightarrow> False))
             \<longrightarrow> BestQuote ext c feeCategory feeTy sched = Return (Some q0, None))"
proof (intro conjI allI impI)
  have pre: "\<forall>e\<in>set pre. FeeType e \<noteq> feeTy" using assms(4) by blast
  have tag: "FeeType fee = feeTy" using assms(5) by blast
  have b: "0 <s Bytes rate" using assms(9) by (simp add: word_sless_alt)
  then have nz: "Bytes rate \<noteq> 0" by auto
  show n: "quo64 (Satoshis rate * txBytes) (Bytes rate) <s 0"
    using assms(7-11) by (rule quo64_negative)
  then have "quo64 (Satoshis rate * txBytes) (Bytes rate) \<noteq> 0" by auto
  then show "GetFee ext (Some f) feeCategory feeTy txBytes
              = Return (quo64 (Satoshis rate * txBytes) (Bytes rate), None)"
    using GetFee_first_match [OF assms(1-3) pre tag assms(6) nz, of txBytes] by simp
  show "sint (quo64 (Satoshis rate * txBytes) (Bytes rate))
           = (sint (Satoshis rate) * sint txBytes) sdiv sint (Bytes rate)"
    using b assms(10)
  proof (rule sint_quo64_trunc)
    have "sint (Satoshis rate) * sint txBytes < 0"
      using assms(7,8) by (simp add: mult_neg_pos)
    also have "(0::int) < 2 ^ 63" by simp
    finally show "sint (Satoshis rate) * sint txBytes < 2 ^ 63" .
  qed
next
  fix c sched m0 q0 rate0
  assume a: "completion_order c sched \<and> m0 \<in> set (Miners c)
             \<and> score ext feeCategory feeTy (getQuote ext c m0) = Return (Inr (q0, rate0))
             \<and> rate0 <s 0
             \<and> (\<forall>m\<in>set (Miners c). m \<noteq> m0 \<longrightarrow>
                   (case score ext feeCategory feeTy (getQuote ext c m) of
                      Return (Inr (q, rate')) \<Rightarrow> 0 <s rate'
                    | _ \<Rightarrow> False))"
  show "BestQuote ext c feeCategory feeTy sched = Return (Some q0, None)"
    by (rule BestQuote_negative_wins [of c sched m0 ext feeCategory feeTy q0 rate0])
       (use a in simp_all)
qed

text \<open>
  The theorem of C10 at the rate \<open>{satoshis: -500, bytes: 1000}\<close>, quoted by the second of
  three peers, the others quoting 500 and 400.
\<close>

theorem GetFee_negative_fee_witness:
  "GetFee (quotingPeers [(''a'', [Some (feeEntry ''standard'' 500 1000)]),
                         (''b'', [Some (feeEntry ''standard'' (- 500) 1000)]),
                         (''c'', [Some (feeEntry ''standard'' 400 1000)])])
      (Some (schedule [Some (feeEntry ''standard'' (- 500) 1000)])) ''mining'' ''standard'' 1000
     = Return (- 500, None)
   \<and> BestQuote (quotingPeers [(''a'', [Some (feeEntry ''standard'' 500 1000)]),
                               (''b'', [Some (feeEntry ''standard'' (- 500) 1000)]),
                               (''c'', [Some (feeEntry ''standard'' 400 1000)])])
      \<lparr>Miners = [miner ''a'', miner ''b'', miner ''c'']\<rparr> ''mining'' ''standard'' [0, 1, 2]
     = Return (Some (fst (parseResponseIntoQuote
          (quotingPeers [(''a'', [Some (feeEntry ''standard'' 500 1000)]),
                         (''b'', [Some (feeEntry ''standard'' (- 500) 1000)]),
                         (''c'', [Some (feeEntry ''standard'' 400 1000)])])
          (getQuote
             (quotingPeers [(''a'', [Some (feeEntry ''standard'' 500 1000)]),
                            (''b'', [Some (feeEntry ''standard'' (- 500) 1000)]),
                            (''c'', [Some (feeEntry ''standard'' 400 1000)])])
             \<lparr>Miners = [miner ''a'', miner ''b'', miner ''c'']\<rparr> (miner ''b'')))), None)"
proof -
  let ?ext = "quotingPeers [(''a'', [Some (feeEntry ''standard'' 500 1000)]),
                            (''b'', [Some (feeEntry ''standard'' (- 500) 1000)]),
                            (''c'', [Some (feeEntry ''standard'' 400 1000)])]"
  let ?c = "\<lparr>Miners = [miner ''a'', miner ''b'', miner ''c'']\<rparr>"
  let ?f = "schedule [Some (feeEntry ''standard'' (- 500) 1000)]"
  let ?rb = "getQuote ?ext ?c (miner ''b'')"
  let ?rate = "\<lparr>Bytes = 1000 :: int64, Satoshis = - 500 :: int64\<rparr>"
  have h1: "EqualFold (hasUnicode ?ext) ''standard'' FeeTypeData
             \<or> EqualFold (hasUnicode ?ext) ''standard'' FeeTypeStandard"
    by code_simp
  have h2: "EqualFold (hasUnicode ?ext) ''mining'' FeeCategoryMining
             \<or> EqualFold (hasUnicode ?ext) ''mining'' FeeCategoryRelay"
    by code_simp
  have h3: "Fees ?f = map Some [] @ Some (feeEntry ''standard'' (- 500) 1000) # []"
    by (simp add: schedule_def)
  have h4: "\<forall>e\<in>set []. FeeType e \<noteq> ''standard''
      \<and> \<not> EqualFold (hasUnicode ?ext) (FeeType e) ''standard''"
    by simp
  have h5: "FeeType (feeEntry ''standard'' (- 500) 1000) = ''standard''
      \<and> EqualFold (hasUnicode ?ext) (FeeType (feeEntry ''standard'' (- 500) 1000)) ''standard''"
    by code_simp
  have h6: "(if EqualFold (hasUnicode ?ext) ''mining'' FeeCategoryMining
          then MiningFee (feeEntry ''standard'' (- 500) 1000)
          else RelayFee (feeEntry ''standard'' (- 500) 1000)) = Some ?rate"
    by code_simp
  have h7: "sint (Satoshis ?rate) < 0" by simp
  have h8: "0 < sint (1000 :: int64)" by simp
  have h9: "0 < sint (Bytes ?rate)" by simp
  have h10: "- (2 ^ 63) \<le> sint (Satoshis ?rate) * sint (1000 :: int64)" by simp
  have h11: "sint (Bytes ?rate) \<le> - (sint (Satoshis ?rate) * sint (1000 :: int64))" by simp
  note c = GetFee_negative_fee [OF h1 h2 h3 h4 h5 h6 h7 h8 h9 h10 h11]
  have k0: "completion_order ?c [0, 1, 2]" by code_simp
  have k1: "miner ''b'' \<in> set (Miners ?c)" by simp
  have k2: "score ?ext ''mining'' ''standard'' ?rb
      = Return (Inr (fst (parseResponseIntoQuote ?ext ?rb), - 500))"
    by code_simp
  have k3: "(- 500 :: int64) <s 0" by (simp add: word_sless_alt)
  have k4: "\<forall>m\<in>set (Miners ?c). m \<noteq> miner ''b'' \<longrightarrow>
                   (case score ?ext ''mining'' ''standard'' (getQuote ?ext ?c m) of
                      Return (Inr (q, rate')) \<Rightarrow> 0 <s rate'
                    | _ \<Rightarrow> False)"
    by code_simp
  from c have first: "GetFee ?ext (Some ?f) ''mining'' ''standard'' 1000
      = Return (quo64 (Satoshis ?rate * 1000) (Bytes ?rate), None)"
    by (rule conjunct1)
  have val: "quo64 (Satoshis ?rate * 1000) (Bytes ?rate) = - 500" by code_simp
  from c have "completion_order ?c [0, 1, 2] \<and> miner ''b'' \<in> set (Miners ?c)
             \<and> score ?ext ''mining'' ''standard'' ?rb
                 = Return (Inr (fst (parseResponseIntoQuote ?ext ?rb), - 500))
             \<and> (- 500 :: int64) <s 0
             \<and> (\<forall>m\<in>set (Miners ?c). m \<noteq> miner ''b'' \<longrightarrow>
                   (case score ?ext ''mining'' ''standard'' (getQuote ?ext ?c m) of
                      Return (Inr (q, rate')) \<Rightarrow> 0 <s rate'
                    | _ \<Rightarrow> False))
             \<longrightarrow> BestQuote ?ext ?c ''mining'' ''standard'' [0, 1, 2]
                   = Return (Some (fst (parseResponseIntoQuote ?ext ?rb)), None)"
    by blast
  with k0 k1 k2 k3 k4 have second: "BestQuote ?ext ?c ''mining'' ''standard'' [0, 1, 2]
                   = Return (Some (fst (parseResponseIntoQuote ?ext ?rb)), None)"
    by blast
  from first val second show ?thesis by simp
qed

text \<open>
  Claim C10 as stated fails for a negative rate whose quotient truncates to zero: with
  \<open>{satoshis: -1, bytes: 2000}\<close> at 1000 bytes \<open>GetFee\<close> returns 1 with the warning, and the
  aggregation over that peer and a peer quoting 500 is aborted with the warning.
\<close>

theorem GetFee_negative_rate_counterexample:
  "sint (Satoshis \<lparr>Bytes = 2000 :: int64, Satoshis = - 1 :: int64\<rparr>) < 0
   \<and> GetFee (quotingPeers [(''a'', [Some (feeEntry ''standard'' 500 1000)]),
                           (''b'', [Some (feeEntry ''standard'' (- 1) 2000)])])
      (Some (schedule [Some (feeEntry ''standard'' (- 1) 2000)])) ''mining'' ''standard'' 1000
     = Return (1, Some (Errorf ''warning: fee calculation was 0''))
   \<and> BestQuote (quotingPeers [(''a'', [Some (feeEntry ''standard'' 500 1000)]),
                               (''b'', [Some (feeEntry ''standard'' (- 1) 2000)])])
      \<lparr>Miners = [miner ''a'', miner ''b'']\<rparr> ''mining'' ''standard'' [0, 1]
     = Return (None, Some (Errorf ''warning: fee calculation was 0''))"
  by code_simp

end
